theory Spec2Isabelle
  imports Complex_Main
begin

section \<open>Data model\<close>

text \<open>
  The rows of \<^verbatim>\<open>reports.models\<close> as the API code reads them. Primary and foreign keys are
  integers; a foreign key field holds the primary key of the row it points to. The reverse
  one-to-one accessor \<^verbatim>\<open>user.profile\<close> is an option: \<^verbatim>\<open>hasattr(user, 'profile')\<close> is
  \<^verbatim>\<open>False\<close> exactly when the account has no Profile row.
\<close>

record profile =
  profile_role :: string
  profile_name :: string

record user =
  user_id :: int
  is_authenticated :: bool
  user_profile :: "profile option"

record student =
  student_id :: int
  student_user :: int
  student_name :: string
  student_email :: string

record course =
  course_id :: int
  course_name :: string
  course_code :: string
  credit_units :: int
  course_lecturer :: string

record grade =
  grade_id :: int
  grade_student :: int
  grade_course :: int
  score :: int
  letter :: string
  grade_point :: rat
  np_status :: string

record course_review =
  review_id :: int
  review_course :: int
  review_student :: int
  rating :: int
  comment :: string
  created_at :: nat

text \<open>
  The persistent store: one list of rows per table; \<open>course_students\<close> is the through table
  of the many-to-many relation \<^verbatim>\<open>course.students\<close>, a row being (course pk, student pk).
\<close>

record db =
  students :: "student list"
  courses :: "course list"
  course_students :: "(int \<times> int) list"
  grades :: "grade list"
  reviews :: "course_review list"

section \<open>Query helpers\<close>

datatype orm_error = DoesNotExist | MultipleObjectsReturned

text \<open>\<^verbatim>\<open>Model.objects.get(...)\<close>: the single matching row, or one of the two exceptions.\<close>

definition objects_get :: "('a \<Rightarrow> bool) \<Rightarrow> 'a list \<Rightarrow> orm_error + 'a" where
  "objects_get P rows =
     (case filter P rows of
        [] \<Rightarrow> Inl DoesNotExist
      | [x] \<Rightarrow> Inr x
      | _ # _ # _ \<Rightarrow> Inl MultipleObjectsReturned)"

section \<open>Role-scoped querysets\<close>

text \<open>
  \<^verbatim>\<open>GradeViewSet.get_queryset\<close> (views.py). A student sees the grades of the Student row
  linked to the account, or nothing when there is no such row; a lecturer sees the grades
  of the courses whose \<^verbatim>\<open>lecturer\<close> text equals the profile name; every other user
  (another role, or no profile at all) keeps \<^verbatim>\<open>Grade.objects.all()\<close>.
\<close>

definition GradeViewSet_get_queryset :: "db \<Rightarrow> user \<Rightarrow> orm_error + grade list" where
  "GradeViewSet_get_queryset d u =
     (case user_profile u of
        None \<Rightarrow> Inr (grades d)
      | Some p \<Rightarrow>
          if profile_role p = ''student'' then
            (case objects_get (\<lambda>s. student_user s = user_id u) (students d) of
               Inr st \<Rightarrow> Inr (filter (\<lambda>g. grade_student g = student_id st) (grades d))
             | Inl DoesNotExist \<Rightarrow> Inr []
             | Inl MultipleObjectsReturned \<Rightarrow> Inl MultipleObjectsReturned)
          else if profile_role p = ''lecturer'' then
            (let lecturer_courses = filter (\<lambda>c. course_lecturer c = profile_name p) (courses d)
             in Inr (filter (\<lambda>g. grade_course g \<in> set (map course_id lecturer_courses)) (grades d)))
          else Inr (grades d))"

text \<open>
  \<^verbatim>\<open>CourseReviewViewSet.get_queryset\<close> (views.py): only the lecturer branch narrows.
  The list actions then apply the query-parameter filters, the ordering and the
  pagination of the request to these querysets; those steps select and reorder rows of
  the queryset and are outside this model.
\<close>

definition CourseReviewViewSet_get_queryset :: "db \<Rightarrow> user \<Rightarrow> course_review list" where
  "CourseReviewViewSet_get_queryset d u =
     (case user_profile u of
        None \<Rightarrow> reviews d
      | Some p \<Rightarrow>
          if profile_role p = ''student'' then reviews d
          else if profile_role p = ''lecturer'' then
            (let lecturer_courses = filter (\<lambda>c. course_lecturer c = profile_name p) (courses d)
             in filter (\<lambda>r. review_course r \<in> set (map course_id lecturer_courses)) (reviews d))
          else reviews d)"

section \<open>Responses and permission classes\<close>

text \<open>
  An HTTP response as the views build it: the status code and the text carried in the
  body. An exception that no view catches ends in the framework's status 500.
\<close>

datatype response = Response (status: int) (detail: string)

definition server_error :: response where
  "server_error = Response 500 ''Server Error (500)''"

text \<open>
  The permission classes of permissions.py that the viewsets instantiate, with their
  \<^verbatim>\<open>has_permission\<close>. \<^verbatim>\<open>IsOwnerOrReadOnly\<close> defines only the object-level check, so its
  \<^verbatim>\<open>has_permission\<close> is the inherited one, which allows.
\<close>

datatype permission = IsAuthenticated | IsStudent | IsAdmin | IsLecturerOrAdmin | IsOwnerOrReadOnly

fun has_permission :: "permission \<Rightarrow> user \<Rightarrow> bool" where
  "has_permission IsAuthenticated u = is_authenticated u"
| "has_permission IsStudent u =
     (is_authenticated u \<and>
      (case user_profile u of None \<Rightarrow> False | Some p \<Rightarrow> profile_role p = ''student''))"
| "has_permission IsAdmin u =
     (is_authenticated u \<and>
      (case user_profile u of None \<Rightarrow> False | Some p \<Rightarrow> profile_role p = ''admin''))"
| "has_permission IsLecturerOrAdmin u =
     (is_authenticated u \<and>
      (case user_profile u of None \<Rightarrow> False
       | Some p \<Rightarrow> profile_role p \<in> set [''lecturer'', ''admin'']))"
| "has_permission IsOwnerOrReadOnly u = True"

text \<open>
  The framework's \<^verbatim>\<open>check_permissions\<close>: the first class that refuses ends the request,
  with 401 for a request that carries no valid credentials and 403 otherwise.
\<close>

definition permission_denied :: "user \<Rightarrow> response" where
  "permission_denied u =
     (if is_authenticated u
      then Response 403 ''You do not have permission to perform this action.''
      else Response 401 ''Authentication credentials were not provided.'')"

definition check_permissions :: "permission list \<Rightarrow> user \<Rightarrow> response option" where
  "check_permissions perms u =
     (if list_all (\<lambda>perm. has_permission perm u) perms then None
      else Some (permission_denied u))"

text \<open>The \<^verbatim>\<open>get_permissions\<close> methods of the viewsets (views.py), by action name.\<close>

definition StudentViewSet_get_permissions :: "string \<Rightarrow> permission list" where
  "StudentViewSet_get_permissions action =
     (if action \<in> set [''list'', ''create'', ''update'', ''partial_update'', ''destroy'']
      then [IsLecturerOrAdmin] else [IsAuthenticated])"

definition CourseViewSet_get_permissions :: "string \<Rightarrow> permission list" where
  "CourseViewSet_get_permissions action =
     (if action \<in> set [''create'', ''update'', ''partial_update'', ''destroy'']
      then [IsLecturerOrAdmin] else [IsAuthenticated])"

definition CourseReviewViewSet_get_permissions :: "string \<Rightarrow> permission list" where
  "CourseReviewViewSet_get_permissions action =
     (if action = ''create'' then [IsStudent] else [IsAuthenticated, IsOwnerOrReadOnly])"

text \<open>
  \<^verbatim>\<open>self.get_object()\<close> of a detail route: the row with the primary key of the URL, or the
  404 response. The object-level checks of the classes above that reach it allow.
\<close>

definition get_object :: "('a \<Rightarrow> bool) \<Rightarrow> 'a list \<Rightarrow> response + 'a" where
  "get_object P rows =
     (case objects_get P rows of
        Inr x \<Rightarrow> Inr x
      | Inl DoesNotExist \<Rightarrow> Inl (Response 404 ''Not found.'')
      | Inl MultipleObjectsReturned \<Rightarrow> Inl server_error)"

section \<open>Enrollment\<close>

text \<open>
  \<^verbatim>\<open>course.students.all()\<close>: the Student rows joined to the course through the
  many-to-many table; \<^verbatim>\<open>add\<close> inserts the edge unless it is there, \<^verbatim>\<open>remove\<close>
  deletes it.
\<close>

definition course_students_all :: "db \<Rightarrow> course \<Rightarrow> student list" where
  "course_students_all d c =
     filter (\<lambda>s. (course_id c, student_id s) \<in> set (course_students d)) (students d)"

definition course_students_add :: "db \<Rightarrow> course \<Rightarrow> student \<Rightarrow> db" where
  "course_students_add d c s =
     (if (course_id c, student_id s) \<in> set (course_students d) then d
      else d\<lparr>course_students := course_students d @ [(course_id c, student_id s)]\<rparr>)"

definition course_students_remove :: "db \<Rightarrow> course \<Rightarrow> student \<Rightarrow> db" where
  "course_students_remove d c s =
     d\<lparr>course_students := filter (\<lambda>e. e \<noteq> (course_id c, student_id s)) (course_students d)\<rparr>"

text \<open>
  \<^verbatim>\<open>EnrollmentSerializer\<close> (serializers.py). The body's \<^verbatim>\<open>course_id\<close> is \<open>None\<close> when the
  field is absent; \<^verbatim>\<open>validate_course_id\<close> catches \<^verbatim>\<open>Course.DoesNotExist\<close> only.
\<close>

definition validate_course_id :: "db \<Rightarrow> int \<Rightarrow> response + int" where
  "validate_course_id d v =
     (case objects_get (\<lambda>c. course_id c = v) (courses d) of
        Inr c \<Rightarrow> Inr v
      | Inl DoesNotExist \<Rightarrow> Inl (Response 400 ''Course does not exist'')
      | Inl MultipleObjectsReturned \<Rightarrow> Inl server_error)"

definition EnrollmentSerializer_is_valid :: "db \<Rightarrow> int option \<Rightarrow> response + int" where
  "EnrollmentSerializer_is_valid d data =
     (case data of
        None \<Rightarrow> Inl (Response 400 ''This field is required.'')
      | Some v \<Rightarrow> validate_course_id d v)"

text \<open>\<^verbatim>\<open>StudentViewSet.enroll\<close> (views.py): the response and the store after the request.\<close>

definition StudentViewSet_enroll :: "db \<Rightarrow> user \<Rightarrow> int \<Rightarrow> int option \<Rightarrow> response \<times> db" where
  "StudentViewSet_enroll d u pk data =
     (case check_permissions (StudentViewSet_get_permissions ''enroll'') u of
        Some denied \<Rightarrow> (denied, d)
      | None \<Rightarrow>
          (case get_object (\<lambda>s. student_id s = pk) (students d) of
             Inl not_found \<Rightarrow> (not_found, d)
           | Inr st \<Rightarrow>
               if (case user_profile u of None \<Rightarrow> False
                   | Some p \<Rightarrow> profile_role p \<noteq> ''student'')
                  \<and> student_user st \<noteq> user_id u
               then (Response 403 ''You can only enroll yourself'', d)
               else
                 (case EnrollmentSerializer_is_valid d data of
                    Inl errors \<Rightarrow> (errors, d)
                  | Inr cid \<Rightarrow>
                      (case objects_get (\<lambda>c. course_id c = cid) (courses d) of
                         Inl e \<Rightarrow> (server_error, d)
                       | Inr c \<Rightarrow>
                           if student_id st \<in> set (map student_id (course_students_all d c))
                           then (Response 400 ''Already enrolled in this course'', d)
                           else (Response 200 (''Successfully enrolled in '' @ course_name c),
                                 course_students_add d c st)))))"

text \<open>\<^verbatim>\<open>StudentViewSet.unenroll\<close> (views.py).\<close>

definition StudentViewSet_unenroll :: "db \<Rightarrow> user \<Rightarrow> int \<Rightarrow> int option \<Rightarrow> response \<times> db" where
  "StudentViewSet_unenroll d u pk data =
     (case check_permissions (StudentViewSet_get_permissions ''unenroll'') u of
        Some denied \<Rightarrow> (denied, d)
      | None \<Rightarrow>
          (case get_object (\<lambda>s. student_id s = pk) (students d) of
             Inl not_found \<Rightarrow> (not_found, d)
           | Inr st \<Rightarrow>
               if (case user_profile u of None \<Rightarrow> False
                   | Some p \<Rightarrow> profile_role p \<noteq> ''student'')
                  \<and> student_user st \<noteq> user_id u
               then (Response 403 ''You can only unenroll yourself'', d)
               else
                 (case EnrollmentSerializer_is_valid d data of
                    Inl errors \<Rightarrow> (errors, d)
                  | Inr cid \<Rightarrow>
                      (case objects_get (\<lambda>c. course_id c = cid) (courses d) of
                         Inl e \<Rightarrow> (server_error, d)
                       | Inr c \<Rightarrow>
                           if student_id st \<notin> set (map student_id (course_students_all d c))
                           then (Response 400 ''Not enrolled in this course'', d)
                           else (Response 200 (''Successfully unenrolled from '' @ course_name c),
                                 course_students_remove d c st)))))"

section \<open>Students of a course\<close>

text \<open>
  A Python \<^verbatim>\<open>dict\<close> as the list of its items in insertion order: storing under a key that
  is present replaces the value in place, a new key goes to the end.
\<close>

fun dict_setitem :: "'k \<Rightarrow> 'v \<Rightarrow> ('k \<times> 'v) list \<Rightarrow> ('k \<times> 'v) list" where
  "dict_setitem k v [] = [(k, v)]"
| "dict_setitem k v ((k', v') # items) =
     (if k' = k then (k', v) # items else (k', v') # dict_setitem k v items)"

text \<open>The comprehension \<^verbatim>\<open>{key(x): x for x in xs}\<close> and \<^verbatim>\<open>dict.values()\<close>.\<close>

definition dict_by :: "('v \<Rightarrow> 'k) \<Rightarrow> 'v list \<Rightarrow> ('k \<times> 'v) list" where
  "dict_by key xs = foldl (\<lambda>items x. dict_setitem (key x) x items) [] xs"

definition dict_values :: "('k \<times> 'v) list \<Rightarrow> 'v list" where
  "dict_values items = map snd items"

text \<open>
  \<^verbatim>\<open>[grade.student for grade in ...]\<close>: each grade's foreign key is followed to its
  Student row; a key without its row raises.
\<close>

fun grade_students :: "db \<Rightarrow> grade list \<Rightarrow> orm_error + student list" where
  "grade_students d [] = Inr []"
| "grade_students d (g # gs) =
     (case objects_get (\<lambda>s. student_id s = grade_student g) (students d) of
        Inl e \<Rightarrow> Inl e
      | Inr s \<Rightarrow>
          (case grade_students d gs of
             Inl e \<Rightarrow> Inl e
           | Inr ss \<Rightarrow> Inr (s # ss)))"

text \<open>\<^verbatim>\<open>CourseViewSet.students\<close> (views.py).\<close>

definition CourseViewSet_students :: "db \<Rightarrow> user \<Rightarrow> int \<Rightarrow> response + student list" where
  "CourseViewSet_students d u pk =
     (case check_permissions (CourseViewSet_get_permissions ''students'') u of
        Some denied \<Rightarrow> Inl denied
      | None \<Rightarrow>
          (case get_object (\<lambda>c. course_id c = pk) (courses d) of
             Inl not_found \<Rightarrow> Inl not_found
           | Inr c \<Rightarrow>
               (let students_from_m2m = course_students_all d c in
                case grade_students d (filter (\<lambda>g. grade_course g = course_id c) (grades d)) of
                  Inl e \<Rightarrow> Inl server_error
                | Inr students_from_grades \<Rightarrow>
                    Inr (dict_values (dict_by student_id
                           (students_from_m2m @ students_from_grades))))))"

section \<open>Course reviews\<close>

text \<open>
  The body of a create request, as the client sends it: the \<^verbatim>\<open>student\<close> field is writable
  in \<^verbatim>\<open>CourseReviewSerializer\<close> and may be absent.
\<close>

record review_data =
  data_course :: int
  data_student :: "int option"
  data_rating :: int
  data_comment :: string

text \<open>\<^verbatim>\<open>CourseReviewSerializer.validate_rating\<close> (serializers.py).\<close>

definition validate_rating :: "int \<Rightarrow> response + int" where
  "validate_rating v =
     (if v < 1 \<or> v > 5 then Inl (Response 400 ''Rating must be between 1 and 5'')
      else Inr v)"

text \<open>
  \<^verbatim>\<open>serializer.is_valid\<close>. The checks that the framework derives from the declaration of
  the \<^verbatim>\<open>CourseReview\<close> model (which fields are required, which keys exist) are the
  parameter \<open>model_fields_ok\<close>; the rating check is the one above.
\<close>

definition CourseReviewSerializer_is_valid ::
    "(db \<Rightarrow> review_data \<Rightarrow> bool) \<Rightarrow> db \<Rightarrow> review_data \<Rightarrow> response + review_data" where
  "CourseReviewSerializer_is_valid model_fields_ok d data =
     (if \<not> model_fields_ok d data then Inl (Response 400 ''Invalid input.'')
      else (case validate_rating (data_rating data) of
              Inl errors \<Rightarrow> Inl errors
            | Inr v \<Rightarrow> Inr (data\<lparr>data_rating := v\<rparr>)))"

definition next_pk :: "int list \<Rightarrow> int" where
  "next_pk pks = fold max pks 0 + 1"

text \<open>
  \<^verbatim>\<open>serializer.save(student=student)\<close>: the keyword arguments are merged over the
  validated data (\<^verbatim>\<open>{**validated_data, **kwargs}\<close>) and the row is created from the
  merged values; a row cannot be created without its student.
\<close>

definition serializer_save ::
    "nat \<Rightarrow> db \<Rightarrow> review_data \<Rightarrow> student \<Rightarrow> response + (course_review \<times> db)" where
  "serializer_save now d validated_data st =
     (let merged = validated_data\<lparr>data_student := Some (student_id st)\<rparr> in
      case data_student merged of
        None \<Rightarrow> Inl server_error
      | Some sid \<Rightarrow>
          (let created = \<lparr>review_id = next_pk (map review_id (reviews d)),
                          review_course = data_course merged,
                          review_student = sid,
                          rating = data_rating merged,
                          comment = data_comment merged,
                          created_at = now\<rparr>
           in Inr (created, d\<lparr>reviews := reviews d @ [created]\<rparr>)))"

text \<open>\<^verbatim>\<open>CourseReviewViewSet.perform_create\<close> (views.py).\<close>

definition CourseReviewViewSet_perform_create ::
    "nat \<Rightarrow> db \<Rightarrow> user \<Rightarrow> review_data \<Rightarrow> response + (course_review \<times> db)" where
  "CourseReviewViewSet_perform_create now d u validated_data =
     (case objects_get (\<lambda>s. student_user s = user_id u) (students d) of
        Inl e \<Rightarrow> Inl server_error
      | Inr st \<Rightarrow> serializer_save now d validated_data st)"

text \<open>
  The create action of \<^verbatim>\<open>CourseReviewViewSet\<close>: permission check, validation,
  \<^verbatim>\<open>perform_create\<close>. The result is the created row and the store that holds it.
\<close>

definition CourseReviewViewSet_create ::
    "(db \<Rightarrow> review_data \<Rightarrow> bool) \<Rightarrow> nat \<Rightarrow> db \<Rightarrow> user \<Rightarrow> review_data
       \<Rightarrow> response + (course_review \<times> db)" where
  "CourseReviewViewSet_create model_fields_ok now d u data =
     (case check_permissions (CourseReviewViewSet_get_permissions ''create'') u of
        Some denied \<Rightarrow> Inl denied
      | None \<Rightarrow>
          (case CourseReviewSerializer_is_valid model_fields_ok d data of
             Inl errors \<Rightarrow> Inl errors
           | Inr validated_data \<Rightarrow> CourseReviewViewSet_perform_create now d u validated_data))"

section \<open>Student detail: semester remark and grade-point averages\<close>

text \<open>\<^verbatim>\<open>StudentDetailSerializer.get_semester_remark\<close> (serializers.py).\<close>

definition get_semester_remark :: "db \<Rightarrow> student \<Rightarrow> string" where
  "get_semester_remark d obj =
     (let gs = filter (\<lambda>g. grade_student g = student_id obj) (grades d) in
      if \<not> (gs \<noteq> []) then ''No grades yet''
      else if list_all (\<lambda>g. np_status g = ''NP'') gs then ''Normal Progress''
      else ''Attention Needed'')"

text \<open>
  \<^verbatim>\<open>StudentViewSet.gpa\<close> (views.py). \<^verbatim>\<open>calculate_gpa\<close> and \<^verbatim>\<open>calculate_cgpa\<close> come from
  \<^verbatim>\<open>reports.utils\<close> and are parameters of the view here.
\<close>

record 'v gpa_body =
  body_student_id :: int
  body_student_name :: string
  body_gpa :: 'v
  body_cgpa :: 'v

definition StudentViewSet_gpa ::
    "(db \<Rightarrow> student \<Rightarrow> 'v) \<Rightarrow> (db \<Rightarrow> student \<Rightarrow> 'v) \<Rightarrow> db \<Rightarrow> user \<Rightarrow> int
       \<Rightarrow> response + 'v gpa_body" where
  "StudentViewSet_gpa calculate_gpa calculate_cgpa d u pk =
     (case check_permissions (StudentViewSet_get_permissions ''gpa'') u of
        Some denied \<Rightarrow> Inl denied
      | None \<Rightarrow>
          (case get_object (\<lambda>s. student_id s = pk) (students d) of
             Inl not_found \<Rightarrow> Inl not_found
           | Inr st \<Rightarrow>
               Inr \<lparr>body_student_id = student_id st,
                    body_student_name = student_name st,
                    body_gpa = calculate_gpa d st,
                    body_cgpa = calculate_cgpa d st\<rparr>))"

text \<open>
  The grade-point utilities \<^verbatim>\<open>calculate_gpa\<close> and \<^verbatim>\<open>calculate_cgpa\<close> live in
  \<^verbatim>\<open>reports.utils\<close>, which is not among the sources; the definitions of the rest of this
  section follow the specification's section 4.2. Arithmetic is exact (rational numbers).
\<close>

text \<open>
  Modelled from the spec: the outcome of a division whose divisor is zero, which the
  specification requires never to occur; \<^verbatim>\<open>reports.utils\<close> is missing.
\<close>

datatype arith_error = ZeroDivisionError

text \<open>
  Modelled from the spec: the defined value of \<^verbatim>\<open>compute_gpa\<close> on the empty grade set
  (\<^verbatim>\<open>reports.utils\<close> is missing); the specification leaves the choice open and names
  0.0 first, which is taken here.
\<close>

definition defined_empty_value :: rat where
  "defined_empty_value = 0"

text \<open>
  Modelled from the spec: the numerator \<^verbatim>\<open>sum(grade_point_i * credit_units_i)\<close> of the
  GPA formula (\<^verbatim>\<open>reports.utils\<close> is missing), over grades paired with their courses.
\<close>

definition weighted_points :: "(grade \<times> course) list \<Rightarrow> rat" where
  "weighted_points gcs = sum_list (map (\<lambda>(g, c). grade_point g * of_int (credit_units c)) gcs)"

text \<open>
  Modelled from the spec: the denominator \<^verbatim>\<open>sum(credit_units_i)\<close> of the GPA formula
  (\<^verbatim>\<open>reports.utils\<close> is missing).
\<close>

definition total_units :: "(grade \<times> course) list \<Rightarrow> int" where
  "total_units gcs = sum_list (map (\<lambda>(g, c). credit_units c) gcs)"

text \<open>
  Modelled from the spec: \<^verbatim>\<open>compute_gpa\<close> (\<^verbatim>\<open>reports.utils\<close> is missing), the weighted
  mean of the grade points by credit units, with the defined value on the empty set. The
  division is written as the language performs it: a zero divisor is an error.
\<close>

definition compute_gpa :: "(grade \<times> course) list \<Rightarrow> arith_error + rat" where
  "compute_gpa gcs =
     (if gcs = [] then Inr defined_empty_value
      else if total_units gcs = 0 then Inl ZeroDivisionError
      else Inr (weighted_points gcs / of_int (total_units gcs)))"

text \<open>
  Modelled from the spec: the grade history of a student (\<^verbatim>\<open>reports.utils\<close> is missing),
  every grade of the student with the course it grades.
\<close>

definition grade_history :: "db \<Rightarrow> student \<Rightarrow> (grade \<times> course) list" where
  "grade_history d st =
     concat (map (\<lambda>g. map (\<lambda>c. (g, c)) (filter (\<lambda>c. course_id c = grade_course g) (courses d)))
               (filter (\<lambda>g. grade_student g = student_id st) (grades d)))"

text \<open>
  Modelled from the spec: \<^verbatim>\<open>calculate_gpa\<close> of \<^verbatim>\<open>reports.utils\<close>, which is missing; the
  GPA formula over the student's grades.
\<close>

definition calculate_gpa :: "db \<Rightarrow> student \<Rightarrow> arith_error + rat" where
  "calculate_gpa d st = compute_gpa (grade_history d st)"

text \<open>
  Modelled from the spec: \<^verbatim>\<open>calculate_cgpa\<close> of \<^verbatim>\<open>reports.utils\<close>, which is missing; the
  specification applies the same formula to the student's whole grade history, which is
  the same set, terms not being modelled.
\<close>

definition calculate_cgpa :: "db \<Rightarrow> student \<Rightarrow> arith_error + rat" where
  "calculate_cgpa d st = compute_gpa (grade_history d st)"

section \<open>A concrete store\<close>

definition alice :: student where
  "alice = \<lparr>student_id = 1, student_user = 11, student_name = ''Alice'',
            student_email = ''alice@example.org''\<rparr>"

definition bob :: student where
  "bob = \<lparr>student_id = 2, student_user = 12, student_name = ''Bob'',
          student_email = ''bob@example.org''\<rparr>"

definition carol :: student where
  "carol = \<lparr>student_id = 3, student_user = 13, student_name = ''Carol'',
            student_email = ''carol@example.org''\<rparr>"

definition cs101 :: course where
  "cs101 = \<lparr>course_id = 101, course_name = ''Algorithms'', course_code = ''CS101'',
            credit_units = 3, course_lecturer = ''Dr Okello''\<rparr>"

definition cs102 :: course where
  "cs102 = \<lparr>course_id = 102, course_name = ''Databases'', course_code = ''CS102'',
            credit_units = 4, course_lecturer = ''Dr Namara''\<rparr>"

definition grade_a1 :: grade where
  "grade_a1 = \<lparr>grade_id = 1, grade_student = 1, grade_course = 101, score = 75,
               letter = ''B'', grade_point = 4, np_status = ''NP''\<rparr>"

definition grade_a2 :: grade where
  "grade_a2 = \<lparr>grade_id = 2, grade_student = 1, grade_course = 102, score = 65,
               letter = ''C'', grade_point = 3, np_status = ''NP''\<rparr>"

definition grade_b1 :: grade where
  "grade_b1 = \<lparr>grade_id = 3, grade_student = 2, grade_course = 101, score = 45,
               letter = ''D'', grade_point = 2, np_status = ''Retake''\<rparr>"

definition review_a :: course_review where
  "review_a = \<lparr>review_id = 1, review_course = 101, review_student = 1, rating = 5,
               comment = ''clear'', created_at = 100\<rparr>"

definition review_b :: course_review where
  "review_b = \<lparr>review_id = 2, review_course = 102, review_student = 2, rating = 2,
               comment = ''fast'', created_at = 101\<rparr>"

definition campus :: db where
  "campus = \<lparr>students = [alice, bob, carol], courses = [cs101, cs102],
             course_students = [(101, 1)],
             grades = [grade_a1, grade_a2, grade_b1],
             reviews = [review_a, review_b]\<rparr>"

definition alice_user :: user where
  "alice_user = \<lparr>user_id = 11, is_authenticated = True,
                 user_profile = Some \<lparr>profile_role = ''student'', profile_name = ''Alice''\<rparr>\<rparr>"

definition okello_user :: user where
  "okello_user = \<lparr>user_id = 21, is_authenticated = True,
                  user_profile = Some \<lparr>profile_role = ''lecturer'', profile_name = ''Dr Okello''\<rparr>\<rparr>"

definition registrar_user :: user where
  "registrar_user = \<lparr>user_id = 31, is_authenticated = True,
                    user_profile = Some \<lparr>profile_role = ''admin'', profile_name = ''Registrar''\<rparr>\<rparr>"

definition guest_user :: user where
  "guest_user = \<lparr>user_id = 41, is_authenticated = True, user_profile = None\<rparr>"

definition review_form :: review_data where
  "review_form = \<lparr>data_course = 102, data_student = Some 2, data_rating = 4,
                  data_comment = ''good labs''\<rparr>"

definition anonymous_user :: user where
  "anonymous_user = \<lparr>user_id = 0, is_authenticated = False, user_profile = None\<rparr>"

lemmas campus_defs =
  campus_def alice_def bob_def carol_def anonymous_user_def cs101_def cs102_def grade_a1_def grade_a2_def grade_b1_def
  review_a_def review_b_def alice_user_def okello_user_def registrar_user_def guest_user_def

section \<open>Row-level filtering of grade and review lists\<close>

text \<open>
  C1. For a principal whose role is student and whose account is linked to a Student row,
  the grade queryset is produced without error and every grade in it has its student
  field equal to that Student: no row of another student is returned.
\<close>

theorem student_sees_only_own_grades:
  assumes "user_profile u = Some p"
    and "profile_role p = ''student''"
    and "objects_get (\<lambda>s. student_user s = user_id u) (students d) = Inr st"
  shows "\<exists>gs. GradeViewSet_get_queryset d u = Inr gs
           \<and> (\<forall>g \<in> set gs. grade_student g = student_id st)
           \<and> (\<forall>g \<in> set gs. \<forall>other. student_id other \<noteq> student_id st
                  \<longrightarrow> grade_student g \<noteq> student_id other)"
  using assms by (simp add: GradeViewSet_get_queryset_def)

theorem student_sees_only_own_grades_witness:
  "GradeViewSet_get_queryset campus alice_user = Inr [grade_a1, grade_a2]
     \<and> grade_student grade_a1 = student_id alice
     \<and> grade_student grade_a2 = student_id alice"
proof -
  have p: "user_profile alice_user = Some \<lparr>profile_role = ''student'', profile_name = ''Alice''\<rparr>"
    by (simp add: campus_defs)
  have r: "profile_role \<lparr>profile_role = ''student'', profile_name = ''Alice''\<rparr> = ''student''"
    by simp
  have l: "objects_get (\<lambda>s. student_user s = user_id alice_user) (students campus) = Inr alice"
    by (simp add: objects_get_def campus_defs)
  have q: "GradeViewSet_get_queryset campus alice_user = Inr [grade_a1, grade_a2]"
    by (simp add: GradeViewSet_get_queryset_def objects_get_def campus_defs)
  from student_sees_only_own_grades [OF p r l] q show ?thesis
    by auto
qed

text \<open>
  C4. For a principal whose role is lecturer, the grade queryset is produced without error
  and every grade in it, as every review in the review queryset, points to a course of
  the store whose lecturer field equals the profile name. For a principal whose role is
  student or admin the review queryset is the whole review table.
\<close>

theorem lecturer_rows_match_profile_name:
  assumes "user_profile u = Some p"
  shows "(profile_role p = ''lecturer'' \<longrightarrow>
            (\<exists>gs. GradeViewSet_get_queryset d u = Inr gs
               \<and> (\<forall>g \<in> set gs. \<exists>c \<in> set (courses d).
                      course_id c = grade_course g \<and> course_lecturer c = profile_name p))
            \<and> (\<forall>r \<in> set (CourseReviewViewSet_get_queryset d u). \<exists>c \<in> set (courses d).
                   course_id c = review_course r \<and> course_lecturer c = profile_name p))
       \<and> (profile_role p = ''student'' \<or> profile_role p = ''admin'' \<longrightarrow>
            CourseReviewViewSet_get_queryset d u = reviews d)"
proof (intro conjI impI)
  assume l: "profile_role p = ''lecturer''"
  have "GradeViewSet_get_queryset d u =
          Inr (filter (\<lambda>g. grade_course g \<in>
                 set (map course_id (filter (\<lambda>c. course_lecturer c = profile_name p) (courses d))))
               (grades d))"
    using assms l by (simp add: GradeViewSet_get_queryset_def)
  then show "\<exists>gs. GradeViewSet_get_queryset d u = Inr gs
               \<and> (\<forall>g \<in> set gs. \<exists>c \<in> set (courses d).
                      course_id c = grade_course g \<and> course_lecturer c = profile_name p)"
    by auto
  have "CourseReviewViewSet_get_queryset d u =
          filter (\<lambda>r. review_course r \<in>
                 set (map course_id (filter (\<lambda>c. course_lecturer c = profile_name p) (courses d))))
               (reviews d)"
    using assms l by (simp add: CourseReviewViewSet_get_queryset_def)
  then show "\<forall>r \<in> set (CourseReviewViewSet_get_queryset d u). \<exists>c \<in> set (courses d).
                course_id c = review_course r \<and> course_lecturer c = profile_name p"
    by auto
next
  assume "profile_role p = ''student'' \<or> profile_role p = ''admin''"
  then show "CourseReviewViewSet_get_queryset d u = reviews d"
    using assms by (auto simp add: CourseReviewViewSet_get_queryset_def)
qed

theorem lecturer_rows_match_profile_name_witness:
  "GradeViewSet_get_queryset campus okello_user = Inr [grade_a1, grade_b1]
     \<and> CourseReviewViewSet_get_queryset campus okello_user = [review_a]
     \<and> cs101 \<in> set (courses campus)
     \<and> course_id cs101 = review_course review_a
     \<and> course_lecturer cs101 = ''Dr Okello''
     \<and> CourseReviewViewSet_get_queryset campus alice_user = reviews campus
     \<and> CourseReviewViewSet_get_queryset campus registrar_user = reviews campus"
proof -
  have po: "user_profile okello_user
              = Some \<lparr>profile_role = ''lecturer'', profile_name = ''Dr Okello''\<rparr>"
    by (simp add: campus_defs)
  have pa: "user_profile alice_user
              = Some \<lparr>profile_role = ''student'', profile_name = ''Alice''\<rparr>"
    by (simp add: campus_defs)
  have pr: "user_profile registrar_user
              = Some \<lparr>profile_role = ''admin'', profile_name = ''Registrar''\<rparr>"
    by (simp add: campus_defs)
  have g: "GradeViewSet_get_queryset campus okello_user = Inr [grade_a1, grade_b1]"
    by (simp add: GradeViewSet_get_queryset_def campus_defs)
  have r: "CourseReviewViewSet_get_queryset campus okello_user = [review_a]"
    by (simp add: CourseReviewViewSet_get_queryset_def campus_defs)
  have c: "cs101 \<in> set (courses campus)" "course_id cs101 = review_course review_a"
    "course_lecturer cs101 = ''Dr Okello''"
    by (simp_all add: campus_defs)
  have sa: "CourseReviewViewSet_get_queryset campus alice_user = reviews campus"
    using lecturer_rows_match_profile_name [OF pa, of campus] by simp
  have sr: "CourseReviewViewSet_get_queryset campus registrar_user = reviews campus"
    using lecturer_rows_match_profile_name [OF pr, of campus] by simp
  from lecturer_rows_match_profile_name [OF po, of campus] g r c sa sr
  show ?thesis by blast
qed

text \<open>
  C10. For a user whose account has no Profile row the role branches are skipped: the
  grade queryset is the whole grade table and the review queryset the whole review
  table, which is also what a principal with the admin role receives.
\<close>

theorem no_profile_sees_everything:
  assumes "user_profile u = None"
    and "user_profile a = Some p" and "profile_role p = ''admin''"
  shows "GradeViewSet_get_queryset d u = Inr (grades d)
       \<and> CourseReviewViewSet_get_queryset d u = reviews d
       \<and> GradeViewSet_get_queryset d u = GradeViewSet_get_queryset d a
       \<and> CourseReviewViewSet_get_queryset d u = CourseReviewViewSet_get_queryset d a"
  using assms by (simp add: GradeViewSet_get_queryset_def CourseReviewViewSet_get_queryset_def)

theorem no_profile_sees_everything_witness:
  "is_authenticated guest_user \<and> user_profile guest_user = None
     \<and> GradeViewSet_get_queryset campus guest_user = Inr [grade_a1, grade_a2, grade_b1]
     \<and> CourseReviewViewSet_get_queryset campus guest_user = [review_a, review_b]
     \<and> GradeViewSet_get_queryset campus guest_user
         = GradeViewSet_get_queryset campus registrar_user"
proof -
  have n: "user_profile guest_user = None"
    by (simp add: campus_defs)
  have pr: "user_profile registrar_user
              = Some \<lparr>profile_role = ''admin'', profile_name = ''Registrar''\<rparr>"
    by (simp add: campus_defs)
  have ro: "profile_role \<lparr>profile_role = ''admin'', profile_name = ''Registrar''\<rparr> = ''admin''"
    by simp
  have a: "is_authenticated guest_user"
    by (simp add: campus_defs)
  have t: "grades campus = [grade_a1, grade_a2, grade_b1]" "reviews campus = [review_a, review_b]"
    by (simp_all add: campus_def)
  from no_profile_sees_everything [OF n pr ro, of campus] n a t show ?thesis
    by metis
qed

section \<open>Enrollment transitions\<close>

lemma objects_get_Inr:
  "objects_get P rows = Inr x \<Longrightarrow> x \<in> set rows \<and> P x"
proof -
  assume a: "objects_get P rows = Inr x"
  then have "filter P rows = [x]"
    by (auto simp add: objects_get_def split: list.splits)
  then have "x \<in> set (filter P rows)" by simp
  then show ?thesis by simp
qed

lemma enrolled_iff_edge:
  assumes "objects_get (\<lambda>s. student_id s = pk) (students d) = Inr st"
  shows "student_id st \<in> set (map student_id (course_students_all d c))
           \<longleftrightarrow> (course_id c, student_id st) \<in> set (course_students d)"
  using objects_get_Inr [OF assms] by (auto simp add: course_students_all_def)

lemma authenticated_passes:
  "is_authenticated u \<Longrightarrow> check_permissions (StudentViewSet_get_permissions ''enroll'') u = None"
  "is_authenticated u \<Longrightarrow> check_permissions (StudentViewSet_get_permissions ''unenroll'') u = None"
  by (simp_all add: check_permissions_def StudentViewSet_get_permissions_def)

lemma enroll_reached:
  assumes "is_authenticated u"
    and "objects_get (\<lambda>s. student_id s = pk) (students d) = Inr st"
    and "(case user_profile u of None \<Rightarrow> False | Some p \<Rightarrow> profile_role p \<noteq> ''student'')
           \<longrightarrow> student_user st = user_id u"
    and "objects_get (\<lambda>c. course_id c = cid) (courses d) = Inr c"
  shows "StudentViewSet_enroll d u pk (Some cid) =
           (if (course_id c, student_id st) \<in> set (course_students d)
            then (Response 400 ''Already enrolled in this course'', d)
            else (Response 200 (''Successfully enrolled in '' @ course_name c),
                  d\<lparr>course_students := course_students d @ [(course_id c, student_id st)]\<rparr>))"
  using assms enrolled_iff_edge [OF assms(2), of c]
  by (simp add: StudentViewSet_enroll_def authenticated_passes get_object_def
        EnrollmentSerializer_is_valid_def validate_course_id_def course_students_add_def)

lemma unenroll_reached:
  assumes "is_authenticated u"
    and "objects_get (\<lambda>s. student_id s = pk) (students d) = Inr st"
    and "(case user_profile u of None \<Rightarrow> False | Some p \<Rightarrow> profile_role p \<noteq> ''student'')
           \<longrightarrow> student_user st = user_id u"
    and "objects_get (\<lambda>c. course_id c = cid) (courses d) = Inr c"
  shows "StudentViewSet_unenroll d u pk (Some cid) =
           (if (course_id c, student_id st) \<notin> set (course_students d)
            then (Response 400 ''Not enrolled in this course'', d)
            else (Response 200 (''Successfully unenrolled from '' @ course_name c),
                  d\<lparr>course_students :=
                      filter (\<lambda>e. e \<noteq> (course_id c, student_id st)) (course_students d)\<rparr>))"
  using assms enrolled_iff_edge [OF assms(2), of c]
  by (simp add: StudentViewSet_unenroll_def authenticated_passes get_object_def
        EnrollmentSerializer_is_valid_def validate_course_id_def course_students_remove_def)

text \<open>
  C7. For a request that reaches the enrollment step (an authenticated user whom the
  ownership guard lets through, an existing student \<open>pk\<close> and a valid course id \<open>cid\<close>):
  enroll answers "Already enrolled in this course" exactly when the edge \<open>(cid, pk)\<close>
  exists, and then leaves the store unchanged; otherwise it answers 200 and adds the edge.
  Unenroll answers "Not enrolled in this course" exactly when the edge does not exist, and
  then leaves the store unchanged; otherwise it answers 200 and removes the edge. A second
  enroll for the same student and course answers "Already enrolled in this course".
\<close>

theorem enroll_unenroll_edge_transitions:
  assumes "is_authenticated u"
    and "objects_get (\<lambda>s. student_id s = pk) (students d) = Inr st"
    and "(case user_profile u of None \<Rightarrow> False | Some p \<Rightarrow> profile_role p \<noteq> ''student'')
           \<longrightarrow> student_user st = user_id u"
    and "objects_get (\<lambda>c. course_id c = cid) (courses d) = Inr c"
  shows "(fst (StudentViewSet_enroll d u pk (Some cid)) = Response 400 ''Already enrolled in this course''
            \<longleftrightarrow> (cid, pk) \<in> set (course_students d))
       \<and> ((cid, pk) \<in> set (course_students d) \<longrightarrow>
            snd (StudentViewSet_enroll d u pk (Some cid)) = d)
       \<and> ((cid, pk) \<notin> set (course_students d) \<longrightarrow>
            StudentViewSet_enroll d u pk (Some cid) =
              (Response 200 (''Successfully enrolled in '' @ course_name c),
               d\<lparr>course_students := course_students d @ [(cid, pk)]\<rparr>))
       \<and> (fst (StudentViewSet_unenroll d u pk (Some cid)) = Response 400 ''Not enrolled in this course''
            \<longleftrightarrow> (cid, pk) \<notin> set (course_students d))
       \<and> ((cid, pk) \<notin> set (course_students d) \<longrightarrow>
            snd (StudentViewSet_unenroll d u pk (Some cid)) = d)
       \<and> ((cid, pk) \<in> set (course_students d) \<longrightarrow>
            StudentViewSet_unenroll d u pk (Some cid) =
              (Response 200 (''Successfully unenrolled from '' @ course_name c),
               d\<lparr>course_students := filter (\<lambda>e. e \<noteq> (cid, pk)) (course_students d)\<rparr>))
       \<and> fst (StudentViewSet_enroll (snd (StudentViewSet_enroll d u pk (Some cid))) u pk (Some cid))
            = Response 400 ''Already enrolled in this course''"
proof -
  have ids: "student_id st = pk" "course_id c = cid"
    using objects_get_Inr [OF assms(2)] objects_get_Inr [OF assms(4)] by simp_all
  note e = enroll_reached [OF assms, unfolded ids]
  note un = unenroll_reached [OF assms, unfolded ids]
  let ?d' = "snd (StudentViewSet_enroll d u pk (Some cid))"
  have same: "students ?d' = students d" "courses ?d' = courses d"
    by (simp_all add: e)
  have edge: "(cid, pk) \<in> set (course_students ?d')"
    by (simp add: e)
  have again: "StudentViewSet_enroll ?d' u pk (Some cid)
                 = (Response 400 ''Already enrolled in this course'', ?d')"
    using enroll_reached [of u pk ?d' st cid c] assms edge ids by (simp add: same)
  have twice: "fst (StudentViewSet_enroll ?d' u pk (Some cid))
                 = Response 400 ''Already enrolled in this course''"
    by (simp only: again fst_conv)
  have first: "(fst (StudentViewSet_enroll d u pk (Some cid)) = Response 400 ''Already enrolled in this course''
            \<longleftrightarrow> (cid, pk) \<in> set (course_students d))
       \<and> ((cid, pk) \<in> set (course_students d) \<longrightarrow>
            snd (StudentViewSet_enroll d u pk (Some cid)) = d)
       \<and> ((cid, pk) \<notin> set (course_students d) \<longrightarrow>
            StudentViewSet_enroll d u pk (Some cid) =
              (Response 200 (''Successfully enrolled in '' @ course_name c),
               d\<lparr>course_students := course_students d @ [(cid, pk)]\<rparr>))"
    by (simp add: e)
  have second: "(fst (StudentViewSet_unenroll d u pk (Some cid)) = Response 400 ''Not enrolled in this course''
            \<longleftrightarrow> (cid, pk) \<notin> set (course_students d))
       \<and> ((cid, pk) \<notin> set (course_students d) \<longrightarrow>
            snd (StudentViewSet_unenroll d u pk (Some cid)) = d)
       \<and> ((cid, pk) \<in> set (course_students d) \<longrightarrow>
            StudentViewSet_unenroll d u pk (Some cid) =
              (Response 200 (''Successfully unenrolled from '' @ course_name c),
               d\<lparr>course_students := filter (\<lambda>e. e \<noteq> (cid, pk)) (course_students d)\<rparr>))"
    by (simp add: un)
  from first second twice show ?thesis
    by blast
qed


theorem enroll_unenroll_edge_transitions_witness:
  "StudentViewSet_enroll campus alice_user 1 (Some 102)
      = (Response 200 ''Successfully enrolled in Databases'',
         campus\<lparr>course_students := [(101, 1), (102, 1)]\<rparr>)
   \<and> fst (StudentViewSet_enroll (snd (StudentViewSet_enroll campus alice_user 1 (Some 102)))
            alice_user 1 (Some 102)) = Response 400 ''Already enrolled in this course''
   \<and> StudentViewSet_enroll campus alice_user 1 (Some 101)
      = (Response 400 ''Already enrolled in this course'', campus)
   \<and> StudentViewSet_unenroll campus alice_user 1 (Some 102)
      = (Response 400 ''Not enrolled in this course'', campus)
   \<and> StudentViewSet_unenroll campus alice_user 1 (Some 101)
      = (Response 200 ''Successfully unenrolled from Algorithms'',
         campus\<lparr>course_students := []\<rparr>)"
proof -
  have a: "is_authenticated alice_user"
    by (simp add: campus_defs)
  have s: "objects_get (\<lambda>s. student_id s = 1) (students campus) = Inr alice"
    by (simp add: objects_get_def campus_defs)
  have g: "(case user_profile alice_user of None \<Rightarrow> False
            | Some p \<Rightarrow> profile_role p \<noteq> ''student'')
           \<longrightarrow> student_user alice = user_id alice_user"
    by (simp add: campus_defs)
  have c1: "objects_get (\<lambda>c. course_id c = 101) (courses campus) = Inr cs101"
    by (simp add: objects_get_def campus_defs)
  have c2: "objects_get (\<lambda>c. course_id c = 102) (courses campus) = Inr cs102"
    by (simp add: objects_get_def campus_defs)
  have e: "course_students campus = [(101, 1)]"
    by (simp add: campus_def)
  have n: "course_name cs101 = ''Algorithms''" "course_name cs102 = ''Databases''"
    by (simp_all add: campus_defs)
  note t1 = enroll_unenroll_edge_transitions [OF a s g c1]
  note t2 = enroll_unenroll_edge_transitions [OF a s g c2]
  from t2 have twice:
    "fst (StudentViewSet_enroll (snd (StudentViewSet_enroll campus alice_user 1 (Some 102)))
            alice_user 1 (Some 102)) = Response 400 ''Already enrolled in this course''"
    by blast
  from t1 t2 have once:
    "StudentViewSet_enroll campus alice_user 1 (Some 102)
      = (Response 200 ''Successfully enrolled in Databases'',
         campus\<lparr>course_students := [(101, 1), (102, 1)]\<rparr>)
   \<and> StudentViewSet_enroll campus alice_user 1 (Some 101)
      = (Response 400 ''Already enrolled in this course'', campus)
   \<and> StudentViewSet_unenroll campus alice_user 1 (Some 102)
      = (Response 400 ''Not enrolled in this course'', campus)
   \<and> StudentViewSet_unenroll campus alice_user 1 (Some 101)
      = (Response 200 ''Successfully unenrolled from Algorithms'',
         campus\<lparr>course_students := []\<rparr>)"
    by (simp add: e n prod_eq_iff)
  from once twice show ?thesis
    by blast
qed

text \<open>
  C2. The ownership guard of enroll and unenroll is skipped for a principal whose role is
  student: Alice, a student, enrolls Bob (another account's Student) and the edge is
  added, and her unenroll request for Bob reaches the enrollment step as well, while the
  registrar, an admin acting for Bob, is refused with 403.
\<close>

theorem student_enrolls_another_student:
  "user_profile alice_user = Some \<lparr>profile_role = ''student'', profile_name = ''Alice''\<rparr>
   \<and> student_user bob \<noteq> user_id alice_user
   \<and> StudentViewSet_enroll campus alice_user 2 (Some 102)
      = (Response 200 ''Successfully enrolled in Databases'',
         campus\<lparr>course_students := [(101, 1), (102, 2)]\<rparr>)
   \<and> StudentViewSet_unenroll campus alice_user 2 (Some 101)
      = (Response 400 ''Not enrolled in this course'', campus)
   \<and> StudentViewSet_enroll campus registrar_user 2 (Some 102)
      = (Response 403 ''You can only enroll yourself'', campus)"
  by (simp add: StudentViewSet_enroll_def StudentViewSet_unenroll_def check_permissions_def
        StudentViewSet_get_permissions_def get_object_def objects_get_def
        EnrollmentSerializer_is_valid_def validate_course_id_def course_students_all_def
        course_students_add_def campus_defs)

section \<open>Who may read a student's GPA\<close>

text \<open>
  C3, as stated, fails: Alice is authenticated with the role student, Bob's Student row
  belongs to another account, and her request for Bob's GPA is answered with the body
  (here with the grade-point utilities modelled from the specification).
\<close>

theorem gpa_other_student_counterexample:
  "is_authenticated alice_user
   \<and> user_profile alice_user = Some \<lparr>profile_role = ''student'', profile_name = ''Alice''\<rparr>
   \<and> student_user bob \<noteq> user_id alice_user
   \<and> StudentViewSet_gpa calculate_gpa calculate_cgpa campus alice_user 2
      = Inr \<lparr>body_student_id = 2, body_student_name = ''Bob'',
             body_gpa = Inr 2, body_cgpa = Inr 2\<rparr>"
  by (simp add: StudentViewSet_gpa_def check_permissions_def StudentViewSet_get_permissions_def
        get_object_def objects_get_def calculate_gpa_def calculate_cgpa_def grade_history_def
        compute_gpa_def total_units_def weighted_points_def campus_defs)

text \<open>
  C3, amended. The gpa action is guarded by \<^verbatim>\<open>IsAuthenticated\<close> alone: for every
  authenticated principal and every existing student id the body for that student is
  returned, whatever the principal's role and whoever the student is; a request without
  valid credentials is answered 401. This holds for any implementation of the two
  grade-point utilities.
\<close>

theorem gpa_open_to_every_authenticated_user:
  "(is_authenticated u \<and> objects_get (\<lambda>s. student_id s = pk) (students d) = Inr st \<longrightarrow>
      StudentViewSet_gpa calculate_gpa' calculate_cgpa' d u pk
        = Inr \<lparr>body_student_id = student_id st, body_student_name = student_name st,
               body_gpa = calculate_gpa' d st, body_cgpa = calculate_cgpa' d st\<rparr>)
   \<and> (\<not> is_authenticated u \<longrightarrow>
      StudentViewSet_gpa calculate_gpa' calculate_cgpa' d u pk
        = Inl (Response 401 ''Authentication credentials were not provided.''))"
  by (simp add: StudentViewSet_gpa_def check_permissions_def StudentViewSet_get_permissions_def
        get_object_def permission_denied_def)

theorem gpa_open_to_every_authenticated_user_witness:
  "StudentViewSet_gpa calculate_gpa calculate_cgpa campus okello_user 1
      = Inr \<lparr>body_student_id = 1, body_student_name = ''Alice'',
             body_gpa = Inr (24 / 7), body_cgpa = Inr (24 / 7)\<rparr>
   \<and> StudentViewSet_gpa calculate_gpa calculate_cgpa campus anonymous_user 1
      = Inl (Response 401 ''Authentication credentials were not provided.'')"
proof -
  have a: "is_authenticated okello_user" "\<not> is_authenticated anonymous_user"
    by (simp_all add: campus_defs)
  have s: "objects_get (\<lambda>s. student_id s = 1) (students campus) = Inr alice"
    by (simp add: objects_get_def campus_defs)
  have v: "calculate_gpa campus alice = Inr (24 / 7)" "calculate_cgpa campus alice = Inr (24 / 7)"
    by (simp_all add: calculate_gpa_def calculate_cgpa_def grade_history_def
        compute_gpa_def total_units_def weighted_points_def campus_defs)
  have n: "student_id alice = 1" "student_name alice = ''Alice''"
    by (simp_all add: alice_def)
  from gpa_open_to_every_authenticated_user [of okello_user 1 campus alice calculate_gpa calculate_cgpa]
       gpa_open_to_every_authenticated_user [of anonymous_user 1 campus alice calculate_gpa calculate_cgpa]
       a s
  show ?thesis
    by (simp add: v n)
qed

section \<open>Semester remark\<close>

text \<open>
  C6. The semester remark of a student is "No grades yet" when the student has no grade,
  "Normal Progress" when there is a grade and every grade's \<^verbatim>\<open>np_status\<close> is \<^verbatim>\<open>"NP"\<close>
  (the normal-progress flag), and "Attention Needed" when some grade's \<^verbatim>\<open>np_status\<close>
  is not \<^verbatim>\<open>"NP"\<close>.
\<close>

theorem semester_remark_classification:
  "(filter (\<lambda>g. grade_student g = student_id obj) (grades d) = [] \<longrightarrow>
      get_semester_remark d obj = ''No grades yet'')
   \<and> (filter (\<lambda>g. grade_student g = student_id obj) (grades d) \<noteq> []
        \<and> (\<forall>g \<in> set (grades d). grade_student g = student_id obj \<longrightarrow> np_status g = ''NP'') \<longrightarrow>
      get_semester_remark d obj = ''Normal Progress'')
   \<and> ((\<exists>g \<in> set (grades d). grade_student g = student_id obj \<and> np_status g \<noteq> ''NP'') \<longrightarrow>
      get_semester_remark d obj = ''Attention Needed'')"
  by (auto simp add: get_semester_remark_def list_all_iff filter_empty_conv)

theorem semester_remark_classification_witness:
  "get_semester_remark campus carol = ''No grades yet''
   \<and> get_semester_remark campus alice = ''Normal Progress''
   \<and> get_semester_remark campus bob = ''Attention Needed''"
proof -
  have c: "filter (\<lambda>g. grade_student g = student_id carol) (grades campus) = []"
    by (simp add: campus_defs)
  have a: "filter (\<lambda>g. grade_student g = student_id alice) (grades campus) \<noteq> []
           \<and> (\<forall>g \<in> set (grades campus). grade_student g = student_id alice \<longrightarrow> np_status g = ''NP'')"
    by (simp add: campus_defs)
  have b: "\<exists>g \<in> set (grades campus). grade_student g = student_id bob \<and> np_status g \<noteq> ''NP''"
    by (simp add: campus_defs)
  from semester_remark_classification [of carol campus]
       semester_remark_classification [of alice campus]
       semester_remark_classification [of bob campus] a b c
  show ?thesis
    by blast
qed

section \<open>Grade-point average\<close>

lemma total_units_positive:
  "gcs \<noteq> [] \<Longrightarrow> \<forall>(g, c) \<in> set gcs. 0 < credit_units c \<Longrightarrow> 0 < total_units gcs"
proof (induction gcs)
  case Nil
  then show ?case by simp
next
  case (Cons x xs)
  then show ?case
    by (cases xs) (auto simp add: total_units_def split: prod.splits)
qed

text \<open>
  C9. On the empty grade set \<open>compute_gpa\<close> returns the one defined value; on a non-empty
  set whose courses have positive credit units it returns the credit-weighted mean
  \<^verbatim>\<open>sum(grade_point_i * credit_units_i) / sum(credit_units_i)\<close>; and with positive credit
  units a division by zero never occurs.
\<close>

theorem compute_gpa_weighted_mean:
  "compute_gpa [] = Inr defined_empty_value
   \<and> (gcs \<noteq> [] \<and> (\<forall>(g, c) \<in> set gcs. 0 < credit_units c) \<longrightarrow>
        compute_gpa gcs
          = Inr (sum_list (map (\<lambda>(g, c). grade_point g * of_int (credit_units c)) gcs)
                 / of_int (sum_list (map (\<lambda>(g, c). credit_units c) gcs))))
   \<and> ((\<forall>(g, c) \<in> set gcs. 0 < credit_units c) \<longrightarrow> compute_gpa gcs \<noteq> Inl ZeroDivisionError)"
proof (intro conjI impI)
  show "compute_gpa [] = Inr defined_empty_value"
    by (simp add: compute_gpa_def)
next
  assume h: "gcs \<noteq> [] \<and> (\<forall>(g, c) \<in> set gcs. 0 < credit_units c)"
  then have "0 < total_units gcs"
    using total_units_positive by blast
  with h show "compute_gpa gcs
          = Inr (sum_list (map (\<lambda>(g, c). grade_point g * of_int (credit_units c)) gcs)
                 / of_int (sum_list (map (\<lambda>(g, c). credit_units c) gcs)))"
    by (simp add: compute_gpa_def weighted_points_def total_units_def)
next
  assume h: "\<forall>(g, c) \<in> set gcs. 0 < credit_units c"
  show "compute_gpa gcs \<noteq> Inl ZeroDivisionError"
  proof (cases "gcs = []")
    case True
    then show ?thesis by (simp add: compute_gpa_def)
  next
    case False
    with h have "0 < total_units gcs"
      using total_units_positive by blast
    with False show ?thesis by (simp add: compute_gpa_def)
  qed
qed

theorem compute_gpa_weighted_mean_witness:
  "compute_gpa [(grade_a1, cs101), (grade_a2, cs102)] = Inr (24 / 7)
   \<and> compute_gpa [(grade_a1, cs101), (grade_a2, cs102)] \<noteq> Inl ZeroDivisionError
   \<and> compute_gpa [] = Inr 0"
proof -
  have h: "[(grade_a1, cs101), (grade_a2, cs102)] \<noteq> []
           \<and> (\<forall>(g, c) \<in> set [(grade_a1, cs101), (grade_a2, cs102)]. 0 < credit_units c)"
    by (simp add: campus_defs)
  have v: "sum_list (map (\<lambda>(g, c). grade_point g * of_int (credit_units c))
                      [(grade_a1, cs101), (grade_a2, cs102)])
             / of_int (sum_list (map (\<lambda>(g, c). credit_units c) [(grade_a1, cs101), (grade_a2, cs102)]))
           = (24 / 7 :: rat)"
    by (simp add: campus_defs)
  note t = compute_gpa_weighted_mean [of "[(grade_a1, cs101), (grade_a2, cs102)]"]
  from t h have m: "compute_gpa [(grade_a1, cs101), (grade_a2, cs102)]
          = Inr (sum_list (map (\<lambda>(g, c). grade_point g * of_int (credit_units c))
                      [(grade_a1, cs101), (grade_a2, cs102)])
             / of_int (sum_list (map (\<lambda>(g, c). credit_units c) [(grade_a1, cs101), (grade_a2, cs102)])))"
    by blast
  from t h have z: "compute_gpa [(grade_a1, cs101), (grade_a2, cs102)] \<noteq> Inl ZeroDivisionError"
    by blast
  from t have e: "compute_gpa [] = Inr defined_empty_value"
    by blast
  from m [unfolded v] z e [unfolded defined_empty_value_def] show ?thesis
    by blast
qed

section \<open>Ownership of a created review\<close>

lemma create_as_linked_student:
  assumes "is_authenticated u" and "user_profile u = Some p" and "profile_role p = ''student''"
    and "objects_get (\<lambda>s. student_user s = user_id u) (students d) = Inr st"
  shows "CourseReviewViewSet_create ok now d u data =
           (if ok d data \<and> 1 \<le> data_rating data \<and> data_rating data \<le> 5
            then Inr (\<lparr>review_id = next_pk (map review_id (reviews d)),
                        review_course = data_course data,
                        review_student = student_id st,
                        rating = data_rating data,
                        comment = data_comment data,
                        created_at = now\<rparr>,
                      d\<lparr>reviews := reviews d @
                         [\<lparr>review_id = next_pk (map review_id (reviews d)),
                           review_course = data_course data,
                           review_student = student_id st,
                           rating = data_rating data,
                           comment = data_comment data,
                           created_at = now\<rparr>]\<rparr>)
            else Inl (if ok d data then Response 400 ''Rating must be between 1 and 5''
                      else Response 400 ''Invalid input.''))"
  using assms
  by (auto simp add: CourseReviewViewSet_create_def check_permissions_def
        CourseReviewViewSet_get_permissions_def CourseReviewSerializer_is_valid_def
        validate_rating_def CourseReviewViewSet_perform_create_def serializer_save_def Let_def)

text \<open>
  C5. For a create request by an authenticated principal whose role is student and whose
  account is linked to a Student row: every review that is created carries that Student
  as its student and is stored; a request that passes validation does create one; and two
  requests that differ only in the student field of the body create the same review and
  reach the same store, so the field of the body has no influence on the owner.
\<close>

theorem review_student_is_server_assigned:
  assumes "is_authenticated u" and "user_profile u = Some p" and "profile_role p = ''student''"
    and "objects_get (\<lambda>s. student_user s = user_id u) (students d) = Inr st"
  shows "(\<forall>created d'. CourseReviewViewSet_create ok now d u data = Inr (created, d')
            \<longrightarrow> review_student created = student_id st \<and> created \<in> set (reviews d'))
       \<and> (ok d data \<and> 1 \<le> data_rating data \<and> data_rating data \<le> 5
            \<longrightarrow> (\<exists>created d'. CourseReviewViewSet_create ok now d u data = Inr (created, d')))
       \<and> (\<forall>x r1 d1 r2 d2.
             CourseReviewViewSet_create ok now d u data = Inr (r1, d1)
             \<and> CourseReviewViewSet_create ok now d u (data\<lparr>data_student := x\<rparr>) = Inr (r2, d2)
            \<longrightarrow> review_student r1 = review_student r2 \<and> r1 = r2 \<and> d1 = d2)"
proof (intro conjI allI impI)
  fix created d'
  assume "CourseReviewViewSet_create ok now d u data = Inr (created, d')"
  then show "review_student created = student_id st" and "created \<in> set (reviews d')"
    by (auto simp add: create_as_linked_student [OF assms] split: if_splits)
next
  assume "ok d data \<and> 1 \<le> data_rating data \<and> data_rating data \<le> 5"
  then show "\<exists>created d'. CourseReviewViewSet_create ok now d u data = Inr (created, d')"
    by (simp add: create_as_linked_student [OF assms])
next
  fix x r1 d1 r2 d2
  assume h: "CourseReviewViewSet_create ok now d u data = Inr (r1, d1)
             \<and> CourseReviewViewSet_create ok now d u (data\<lparr>data_student := x\<rparr>) = Inr (r2, d2)"
  then have "r1 = r2 \<and> d1 = d2"
    by (auto simp add: create_as_linked_student [OF assms] split: if_splits)
  then show "review_student r1 = review_student r2" and "r1 = r2" and "d1 = d2"
    by simp_all
qed

theorem review_student_is_server_assigned_witness:
  "CourseReviewViewSet_create (\<lambda>d x. data_course x \<in> set (map course_id (courses d)))
      200 campus alice_user review_form
     = Inr (\<lparr>review_id = 3, review_course = 102, review_student = 1, rating = 4,
              comment = ''good labs'', created_at = 200\<rparr>,
            campus\<lparr>reviews := [review_a, review_b,
              \<lparr>review_id = 3, review_course = 102, review_student = 1, rating = 4,
               comment = ''good labs'', created_at = 200\<rparr>]\<rparr>)
   \<and> CourseReviewViewSet_create (\<lambda>d x. data_course x \<in> set (map course_id (courses d)))
      200 campus alice_user (review_form\<lparr>data_student := None\<rparr>)
     = CourseReviewViewSet_create (\<lambda>d x. data_course x \<in> set (map course_id (courses d)))
      200 campus alice_user review_form"
proof -
  let ?ok = "\<lambda>d x. data_course x \<in> set (map course_id (courses d))"
  have a: "is_authenticated alice_user"
    by (simp add: campus_defs)
  have p: "user_profile alice_user = Some \<lparr>profile_role = ''student'', profile_name = ''Alice''\<rparr>"
    by (simp add: campus_defs)
  have r: "profile_role \<lparr>profile_role = ''student'', profile_name = ''Alice''\<rparr> = ''student''"
    by simp
  have l: "objects_get (\<lambda>s. student_user s = user_id alice_user) (students campus) = Inr alice"
    by (simp add: objects_get_def campus_defs)
  have v1: "CourseReviewViewSet_create ?ok 200 campus alice_user review_form
     = Inr (\<lparr>review_id = 3, review_course = 102, review_student = 1, rating = 4,
              comment = ''good labs'', created_at = 200\<rparr>,
            campus\<lparr>reviews := [review_a, review_b,
              \<lparr>review_id = 3, review_course = 102, review_student = 1, rating = 4,
               comment = ''good labs'', created_at = 200\<rparr>]\<rparr>)"
    by (simp add: CourseReviewViewSet_create_def check_permissions_def
        CourseReviewViewSet_get_permissions_def CourseReviewSerializer_is_valid_def
        validate_rating_def CourseReviewViewSet_perform_create_def serializer_save_def
        objects_get_def next_pk_def review_form_def campus_defs Let_def)
  have v2: "\<exists>r2 d2. CourseReviewViewSet_create ?ok 200 campus alice_user
              (review_form\<lparr>data_student := None\<rparr>) = Inr (r2, d2)"
    by (simp add: CourseReviewViewSet_create_def check_permissions_def
        CourseReviewViewSet_get_permissions_def CourseReviewSerializer_is_valid_def
        validate_rating_def CourseReviewViewSet_perform_create_def serializer_save_def
        objects_get_def next_pk_def review_form_def campus_defs Let_def)
  from v2 obtain r2 d2 where w: "CourseReviewViewSet_create ?ok 200 campus alice_user
              (review_form\<lparr>data_student := None\<rparr>) = Inr (r2, d2)"
    by blast
  note t = review_student_is_server_assigned [OF a p r l, of ?ok 200 review_form]
  then have "\<forall>x r1 d1 r2 d2.
             CourseReviewViewSet_create ?ok 200 campus alice_user review_form = Inr (r1, d1)
             \<and> CourseReviewViewSet_create ?ok 200 campus alice_user
                  (review_form\<lparr>data_student := x\<rparr>) = Inr (r2, d2)
            \<longrightarrow> review_student r1 = review_student r2 \<and> r1 = r2 \<and> d1 = d2"
    by (rule conjunct2 [THEN conjunct2])
  with v1 w have "r2 = \<lparr>review_id = 3, review_course = 102, review_student = 1, rating = 4,
              comment = ''good labs'', created_at = 200\<rparr>
       \<and> d2 = campus\<lparr>reviews := [review_a, review_b,
              \<lparr>review_id = 3, review_course = 102, review_student = 1, rating = 4,
               comment = ''good labs'', created_at = 200\<rparr>]\<rparr>"
    by blast
  with v1 w show ?thesis
    by simp
qed

section \<open>The students of a course\<close>

lemma dict_setitem_present:
  "k \<in> fst ` set items \<Longrightarrow> map fst (dict_setitem k v items) = map fst items"
proof (induction items)
  case Nil
  then show ?case by simp
next
  case (Cons kv items)
  show ?case
  proof (cases "fst kv = k")
    case True
    then show ?thesis by (cases kv) simp
  next
    case False
    with Cons.prems have "k \<in> fst ` set items" by auto
    with Cons.IH False show ?thesis by (cases kv) simp
  qed
qed

lemma dict_setitem_absent:
  "k \<notin> fst ` set items \<Longrightarrow> map fst (dict_setitem k v items) = map fst items @ [k]"
  by (induction items) auto

lemma dict_setitem_keys:
  "map fst (dict_setitem k v items)
     = (if k \<in> fst ` set items then map fst items else map fst items @ [k])"
  by (simp add: dict_setitem_present dict_setitem_absent)

lemma dict_setitem_subset:
  "set (dict_setitem k v items) \<subseteq> insert (k, v) (set items)"
  by (induction items) (auto split: if_splits)

lemma dict_fold_keys:
  "set (map fst (foldl (\<lambda>items x. dict_setitem (key x) x items) acc xs))
     = fst ` set acc \<union> key ` set xs"
proof (induction xs arbitrary: acc)
  case Nil
  then show ?case by simp
next
  case (Cons x xs)
  have "set (map fst (dict_setitem (key x) x acc)) = insert (key x) (fst ` set acc)"
    by (auto simp add: dict_setitem_keys)
  then have "fst ` set (dict_setitem (key x) x acc) = insert (key x) (fst ` set acc)"
    by simp
  with Cons.IH [of "dict_setitem (key x) x acc"] show ?case
    by auto
qed

lemma dict_fold_distinct:
  "distinct (map fst acc)
     \<Longrightarrow> distinct (map fst (foldl (\<lambda>items x. dict_setitem (key x) x items) acc xs))"
proof (induction xs arbitrary: acc)
  case Nil
  then show ?case by simp
next
  case (Cons x xs)
  have "distinct (map fst (dict_setitem (key x) x acc))"
    using Cons.prems by (simp add: dict_setitem_keys)
  then show ?case
    using Cons.IH by simp
qed

lemma dict_fold_values:
  "\<forall>(k, v) \<in> set acc. key v = k \<and> v \<in> S \<Longrightarrow> set xs \<subseteq> S
     \<Longrightarrow> \<forall>(k, v) \<in> set (foldl (\<lambda>items x. dict_setitem (key x) x items) acc xs).
           key v = k \<and> v \<in> S"
proof (induction xs arbitrary: acc)
  case Nil
  then show ?case by simp
next
  case (Cons x xs)
  have "\<forall>(k, v) \<in> set (dict_setitem (key x) x acc). key v = k \<and> v \<in> S"
    using Cons.prems dict_setitem_subset [of "key x" x acc] by auto
  then show ?case
    using Cons.IH Cons.prems(2) by simp
qed

lemma dict_by_values:
  assumes "set xs \<subseteq> S"
  shows "distinct (map key (dict_values (dict_by key xs)))"
    and "set (map key (dict_values (dict_by key xs))) = key ` set xs"
    and "set (dict_values (dict_by key xs)) \<subseteq> S"
proof -
  let ?items = "dict_by key xs"
  have inv: "\<forall>(k, v) \<in> set ?items. key v = k \<and> v \<in> S"
    unfolding dict_by_def using dict_fold_values [of "[]" key S xs] assms by simp
  then have same: "map key (dict_values ?items) = map fst ?items"
    by (auto simp add: dict_values_def)
  have "distinct (map fst ?items)"
    unfolding dict_by_def using dict_fold_distinct [of "[]" key xs] by simp
  then show "distinct (map key (dict_values ?items))"
    by (simp only: same)
  have "set (map fst ?items) = key ` set xs"
    unfolding dict_by_def using dict_fold_keys [of key "[]" xs] by simp
  then show "set (map key (dict_values ?items)) = key ` set xs"
    by (simp only: same)
  show "set (dict_values ?items) \<subseteq> S"
    using inv by (auto simp add: dict_values_def)
qed

lemma grade_students_Inr:
  "grade_students d gs = Inr ss
     \<Longrightarrow> map student_id ss = map grade_student gs \<and> set ss \<subseteq> set (students d)"
proof (induction gs arbitrary: ss)
  case Nil
  then show ?case by simp
next
  case (Cons g gs)
  then show ?case
    by (auto split: sum.splits dest: objects_get_Inr)
qed

lemma grade_students_total:
  "\<forall>g \<in> set gs. \<exists>s. objects_get (\<lambda>s. student_id s = grade_student g) (students d) = Inr s
     \<Longrightarrow> \<exists>ss. grade_students d gs = Inr ss"
  by (induction gs) auto

text \<open>
  C8. For an authenticated request on an existing course whose grades point to existing
  Student rows, the students action returns Student rows of the store in which no
  student id occurs twice, and the ids returned are exactly those of the students joined
  to the course by a many-to-many edge together with those of the students who have a
  grade recorded for the course.
\<close>

theorem course_students_union:
  assumes "is_authenticated u"
    and "objects_get (\<lambda>c. course_id c = pk) (courses d) = Inr c"
    and "\<forall>g \<in> set (grades d). grade_course g = pk \<longrightarrow>
           (\<exists>s. objects_get (\<lambda>s. student_id s = grade_student g) (students d) = Inr s)"
  shows "\<exists>xs. CourseViewSet_students d u pk = Inr xs
           \<and> distinct (map student_id xs)
           \<and> set (map student_id xs)
               = {student_id s |s. s \<in> set (students d) \<and> (pk, student_id s) \<in> set (course_students d)}
                 \<union> {grade_student g |g. g \<in> set (grades d) \<and> grade_course g = pk}
           \<and> set xs \<subseteq> set (students d)"
proof -
  have cid: "course_id c = pk"
    using objects_get_Inr [OF assms(2)] by simp
  let ?gs = "filter (\<lambda>g. grade_course g = course_id c) (grades d)"
  let ?m2m = "course_students_all d c"
  have "\<forall>g \<in> set ?gs. \<exists>s. objects_get (\<lambda>s. student_id s = grade_student g) (students d) = Inr s"
    using assms(3) cid by simp
  then obtain ss where ss: "grade_students d ?gs = Inr ss"
    using grade_students_total by blast
  note g = grade_students_Inr [OF ss]
  let ?xs = "dict_values (dict_by student_id (?m2m @ ss))"
  have view: "CourseViewSet_students d u pk = Inr ?xs"
    using assms(1,2) ss
    by (simp add: CourseViewSet_students_def check_permissions_def
          CourseViewSet_get_permissions_def get_object_def)
  have sub: "set (?m2m @ ss) \<subseteq> set (students d)"
    using g by (auto simp add: course_students_all_def)
  have ids: "student_id ` set (?m2m @ ss)
               = {student_id s |s. s \<in> set (students d) \<and> (pk, student_id s) \<in> set (course_students d)}
                 \<union> {grade_student g |g. g \<in> set (grades d) \<and> grade_course g = pk}"
  proof -
    have "student_id ` set ss = set (map grade_student ?gs)"
      using g by (metis list.set_map)
    then show ?thesis
      using cid by (auto simp add: course_students_all_def image_Un)
  qed
  from dict_by_values [OF sub, of student_id] view ids show ?thesis
    by simp
qed

theorem course_students_union_witness:
  "CourseViewSet_students campus guest_user 101 = Inr [alice, bob]
   \<and> distinct (map student_id [alice, bob])
   \<and> set (map student_id [alice, bob]) = {1, 2}"
proof -
  have a: "is_authenticated guest_user"
    by (simp add: campus_defs)
  have c: "objects_get (\<lambda>c. course_id c = 101) (courses campus) = Inr cs101"
    by (simp add: objects_get_def campus_defs)
  have fk: "\<forall>g \<in> set (grades campus). grade_course g = 101 \<longrightarrow>
           (\<exists>s. objects_get (\<lambda>s. student_id s = grade_student g) (students campus) = Inr s)"
    by (simp add: objects_get_def campus_defs)
  have v: "CourseViewSet_students campus guest_user 101 = Inr [alice, bob]"
    by (simp add: CourseViewSet_students_def check_permissions_def
          CourseViewSet_get_permissions_def get_object_def objects_get_def
          course_students_all_def dict_by_def dict_values_def campus_defs)
  from course_students_union [OF a c fk] v show ?thesis
    by (auto simp add: campus_defs)
qed

end
